theory Spec2Isabelle
  imports Complex_Main
begin

section \<open>Screen-exposure impact predictor: the scoring handler of \<open>App.tsx\<close>\<close>

text \<open>
  The development embeds the two pieces of logic of \<open>src/App.tsx\<close>: the submit
  handler \<open>onSubmit\<close>, which turns a \<open>FormValues\<close> record into six sub-scores, a
  harm level and a suggestion, and the flag \<open>isFormEmpty\<close> computed from the watched
  form values.
\<close>

subsection \<open>JavaScript numbers\<close>

text \<open>
  The numeric form fields are JavaScript numbers. The handler only ever compares them
  with a literal, so a field is modelled by what a comparison can see: a finite value,
  one of the two infinities, or \<open>NaN\<close>. Every comparison with \<open>NaN\<close> is false.

  The sub-scores are JavaScript numbers as well. They start at 5 and are changed only by
  adding or subtracting the literals 1, 2, 3 and 1.5, at most seven times, so every
  intermediate value is a multiple of one half of small magnitude; binary floating point
  represents those exactly and adds them without rounding. They are therefore modelled
  by exact reals. The mean divides such a sum by 6; rounding to the nearest double is
  monotone and 4 and 7 are doubles, so the comparisons of the mean with 4 and 7 have the
  same outcome on the rounded and on the exact quotient.
\<close>

datatype jsnum = NaN | NegInf | Num real | PosInf

fun js_lt :: "jsnum \<Rightarrow> jsnum \<Rightarrow> bool" where
  "js_lt NaN b = False"
| "js_lt a NaN = False"
| "js_lt a NegInf = False"
| "js_lt NegInf b = True"
| "js_lt PosInf b = False"
| "js_lt (Num x) PosInf = True"
| "js_lt (Num x) (Num y) = (x < y)"

definition js_gt :: "jsnum \<Rightarrow> jsnum \<Rightarrow> bool" where
  "js_gt a b = js_lt b a"

definition js_le :: "jsnum \<Rightarrow> jsnum \<Rightarrow> bool" where
  "js_le a b = (a \<noteq> NaN \<and> b \<noteq> NaN \<and> \<not> js_lt b a)"

subsection \<open>Types and interfaces for form fields\<close>

datatype ContentType = Educational | NonEducational | Background | Interactive

datatype ParentalInvolvement = Instructive | CoViewing | Unmediated

datatype YesNo = Yes | No

record FormValues =
  contentType :: ContentType
  duration :: jsnum
  frequency :: jsnum
  age :: jsnum
  parentalInvolvement :: ParentalInvolvement
  simultaneousUse :: YesNo
  backgroundFreq :: jsnum
  maternalScreenTime :: jsnum
  maternalMentalHealth :: YesNo

record Scores =
  vocabulary :: real
  mentalVerb :: real
  expressive :: real
  verbalInteraction :: real
  sentenceComp :: real
  socialLang :: real

datatype HarmLevel = Low | Medium | High

record ScoreResult =
  scores :: Scores
  harmLevel :: HarmLevel
  suggestions :: string

text \<open>The component state set by \<open>setResults\<close>; \<open>None\<close> is the initial \<open>null\<close>.\<close>

record AppState =
  results :: "ScoreResult option"

subsection \<open>Keyed access to the score object\<close>

text \<open>
  \<open>Object.keys(scores)\<close> and \<open>Object.values(scores)\<close> enumerate the six properties in
  the order of the object literal.
\<close>

datatype ScoreKey =
  KVocabulary | KMentalVerb | KExpressive | KVerbalInteraction | KSentenceComp | KSocialLang

definition Object_keys :: "ScoreKey list" where
  "Object_keys =
     [KVocabulary, KMentalVerb, KExpressive, KVerbalInteraction, KSentenceComp, KSocialLang]"

fun get_score :: "Scores \<Rightarrow> ScoreKey \<Rightarrow> real" where
  "get_score s KVocabulary = vocabulary s"
| "get_score s KMentalVerb = mentalVerb s"
| "get_score s KExpressive = expressive s"
| "get_score s KVerbalInteraction = verbalInteraction s"
| "get_score s KSentenceComp = sentenceComp s"
| "get_score s KSocialLang = socialLang s"

fun set_score :: "ScoreKey \<Rightarrow> real \<Rightarrow> Scores \<Rightarrow> Scores" where
  "set_score KVocabulary v s = s\<lparr>vocabulary := v\<rparr>"
| "set_score KMentalVerb v s = s\<lparr>mentalVerb := v\<rparr>"
| "set_score KExpressive v s = s\<lparr>expressive := v\<rparr>"
| "set_score KVerbalInteraction v s = s\<lparr>verbalInteraction := v\<rparr>"
| "set_score KSentenceComp v s = s\<lparr>sentenceComp := v\<rparr>"
| "set_score KSocialLang v s = s\<lparr>socialLang := v\<rparr>"

definition Object_values :: "Scores \<Rightarrow> real list" where
  "Object_values s = map (get_score s) Object_keys"

text \<open>\<open>Object.keys(scores).forEach((k) => (scores[k] += delta))\<close>\<close>

definition forEach_add :: "real \<Rightarrow> Scores \<Rightarrow> Scores" where
  "forEach_add delta s = fold (\<lambda>k acc. set_score k (get_score acc k + delta) acc) Object_keys s"

subsection \<open>The submit handler\<close>

text \<open>1. Initialise neutral scores.\<close>

definition initial_scores :: Scores where
  "initial_scores =
     \<lparr>vocabulary = 5, mentalVerb = 5, expressive = 5,
      verbalInteraction = 5, sentenceComp = 5, socialLang = 5\<rparr>"

text \<open>2. Rule-based modifiers, in the order of the source.\<close>

fun content_modifier :: "ContentType \<Rightarrow> Scores \<Rightarrow> Scores" where
  "content_modifier Educational s =
     s\<lparr>vocabulary := vocabulary s + 2, mentalVerb := mentalVerb s + 2,
       sentenceComp := sentenceComp s + 1\<rparr>"
| "content_modifier NonEducational s =
     s\<lparr>vocabulary := vocabulary s - 2, expressive := expressive s - 1,
       socialLang := socialLang s - 1\<rparr>"
| "content_modifier Background s =
     s\<lparr>verbalInteraction := verbalInteraction s - 3, expressive := expressive s - 2,
       socialLang := socialLang s - 2\<rparr>"
| "content_modifier Interactive s =
     s\<lparr>expressive := expressive s + 1, socialLang := socialLang s + 2,
       mentalVerb := mentalVerb s + 1\<rparr>"

fun parental_modifier :: "ParentalInvolvement \<Rightarrow> Scores \<Rightarrow> Scores" where
  "parental_modifier Instructive s = forEach_add 2 s"
| "parental_modifier CoViewing s =
     s\<lparr>verbalInteraction := verbalInteraction s + 2, expressive := expressive s + 1\<rparr>"
| "parental_modifier Unmediated s = forEach_add (- 2) s"

definition age_modifier :: "jsnum \<Rightarrow> Scores \<Rightarrow> Scores" where
  "age_modifier a s =
     (if js_lt a (Num 12) then forEach_add (- 2) s
      else if js_le a (Num 36) then s\<lparr>vocabulary := vocabulary s - 1\<rparr>
      else s)"

definition excessive_modifier :: "jsnum \<Rightarrow> jsnum \<Rightarrow> Scores \<Rightarrow> Scores" where
  "excessive_modifier dur freq s =
     (if js_gt dur (Num 2) \<or> js_gt freq (Num 7) then forEach_add (- 1.5) s else s)"

definition simultaneous_modifier :: "YesNo \<Rightarrow> Scores \<Rightarrow> Scores" where
  "simultaneous_modifier u s =
     (if u = Yes then s\<lparr>verbalInteraction := verbalInteraction s - 1\<rparr> else s)"

definition background_modifier :: "jsnum \<Rightarrow> Scores \<Rightarrow> Scores" where
  "background_modifier b s =
     (if js_gt b (Num 3)
      then s\<lparr>expressive := expressive s - 2, verbalInteraction := verbalInteraction s - 2\<rparr>
      else s)"

definition maternal_screen_modifier :: "jsnum \<Rightarrow> Scores \<Rightarrow> Scores" where
  "maternal_screen_modifier m s =
     (if js_gt m (Num 4) then s\<lparr>socialLang := socialLang s - 1\<rparr> else s)"

definition maternal_health_modifier :: "YesNo \<Rightarrow> Scores \<Rightarrow> Scores" where
  "maternal_health_modifier h s =
     (if h = Yes then s\<lparr>mentalVerb := mentalVerb s - 1\<rparr> else s)"

text \<open>The score object just before the clamp.\<close>

definition modified_scores :: "FormValues \<Rightarrow> Scores" where
  "modified_scores data =
     maternal_health_modifier (maternalMentalHealth data)
       (maternal_screen_modifier (maternalScreenTime data)
         (background_modifier (backgroundFreq data)
           (simultaneous_modifier (simultaneousUse data)
             (excessive_modifier (duration data) (frequency data)
               (age_modifier (age data)
                 (parental_modifier (parentalInvolvement data)
                   (content_modifier (contentType data) initial_scores)))))))"

text \<open>Clamp to 0-10: \<open>scores[key] = Math.max(0, Math.min(10, scores[key]))\<close> for every key.\<close>

definition clamp_scores :: "Scores \<Rightarrow> Scores" where
  "clamp_scores s =
     fold (\<lambda>k acc. set_score k (max 0 (min 10 (get_score acc k))) acc) Object_keys s"

text \<open>3. Overall harm level and suggestions.\<close>

definition avg :: "Scores \<Rightarrow> real" where
  "avg s = foldl (\<lambda>a b. a + b) 0 (Object_values s) / 6"

definition harm_level :: "real \<Rightarrow> HarmLevel" where
  "harm_level a = (if a > 7 then Low else if a > 4 then Medium else High)"

text \<open>
  The third suggestion contains an em dash (U+2014), written here as the three bytes of
  its UTF-8 encoding.
\<close>

definition em_dash :: string where
  "em_dash = [CHR 0xE2, CHR 0x80, CHR 0x94]"

definition suggestion_text :: "HarmLevel \<Rightarrow> string" where
  "suggestion_text h =
     (if h = High
      then ''Reduce screen time, focus on mediated educational content, and increase direct interactions.''
      else if h = Medium
      then ''Monitor usage; add more parental involvement for better outcomes.''
      else ''Current setup seems beneficial'' @ em_dash @ ''continue with educational focus.'')"

text \<open>The object handed to \<open>setResults\<close>.\<close>

definition score_result :: "FormValues \<Rightarrow> ScoreResult" where
  "score_result data =
     (let s = clamp_scores (modified_scores data);
          h = harm_level (avg s)
      in \<lparr>scores = s, harmLevel = h, suggestions = suggestion_text h\<rparr>)"

definition setResults :: "ScoreResult \<Rightarrow> AppState \<Rightarrow> AppState" where
  "setResults r st = st\<lparr>results := Some r\<rparr>"

definition onSubmit :: "FormValues \<Rightarrow> AppState \<Rightarrow> AppState" where
  "onSubmit data st = setResults (score_result data) st"

subsection \<open>The emptiness flag of the form\<close>

text \<open>
  \<open>watch()\<close> yields the current value of every field; a field that is not yet registered
  is \<open>undefined\<close>, modelled by \<open>None\<close>. A select delivers the value of the chosen
  option, one of the strings of its type. The five number inputs are registered without
  \<open>valueAsNumber\<close>, so what they deliver is the text of the input element: the empty
  string while nothing is entered, and for instance the one-character string \<open>0\<close> once a
  zero is typed. The flag negates each field, so it depends on JavaScript truthiness:
  \<open>undefined\<close> and the empty string are falsy, every non-empty string is truthy.
\<close>

record WatchedValues =
  w_contentType :: "ContentType option"
  w_duration :: "string option"
  w_frequency :: "string option"
  w_age :: "string option"
  w_parentalInvolvement :: "ParentalInvolvement option"
  w_simultaneousUse :: "YesNo option"
  w_backgroundFreq :: "string option"
  w_maternalScreenTime :: "string option"
  w_maternalMentalHealth :: "YesNo option"

text \<open>Truthiness of the text of an input element.\<close>

fun truthy_text :: "string option \<Rightarrow> bool" where
  "truthy_text None = False"
| "truthy_text (Some t) = (t \<noteq> [])"

text \<open>Truthiness of the value of a select: every option string is non-empty.\<close>

fun truthy_option :: "'a option \<Rightarrow> bool" where
  "truthy_option None = False"
| "truthy_option (Some v) = True"

definition isFormEmpty :: "WatchedValues \<Rightarrow> bool" where
  "isFormEmpty formValues =
     (\<not> truthy_option (w_contentType formValues) \<and>
      \<not> truthy_text (w_duration formValues) \<and>
      \<not> truthy_text (w_frequency formValues) \<and>
      \<not> truthy_text (w_age formValues) \<and>
      \<not> truthy_option (w_parentalInvolvement formValues) \<and>
      \<not> truthy_option (w_simultaneousUse formValues) \<and>
      \<not> truthy_text (w_backgroundFreq formValues) \<and>
      \<not> truthy_text (w_maternalScreenTime formValues) \<and>
      \<not> truthy_option (w_maternalMentalHealth formValues))"

text \<open>The submit button carries \<open>disabled={isFormEmpty}\<close>.\<close>

definition submit_disabled :: "WatchedValues \<Rightarrow> bool" where
  "submit_disabled formValues = isFormEmpty formValues"

subsection \<open>Scenarios\<close>

definition scenario_A :: FormValues where
  "scenario_A =
     \<lparr>contentType = Educational, duration = Num 1, frequency = Num 3, age = Num 24,
      parentalInvolvement = CoViewing, simultaneousUse = No, backgroundFreq = Num 0,
      maternalScreenTime = Num 1, maternalMentalHealth = No\<rparr>"

definition scenario_B :: FormValues where
  "scenario_B =
     \<lparr>contentType = Background, duration = Num 4, frequency = Num 10, age = Num 8,
      parentalInvolvement = Unmediated, simultaneousUse = Yes, backgroundFreq = Num 5,
      maternalScreenTime = Num 6, maternalMentalHealth = Yes\<rparr>"

text \<open>Scenario C: interactive content with instructive mediation for a four year old.\<close>

definition scenario_C :: FormValues where
  "scenario_C =
     \<lparr>contentType = Interactive, duration = Num 0.5, frequency = Num 2, age = Num 48,
      parentalInvolvement = Instructive, simultaneousUse = No, backgroundFreq = Num 0,
      maternalScreenTime = Num 0, maternalMentalHealth = No\<rparr>"

text \<open>Two inputs whose mean lands exactly on a threshold.\<close>

definition mean_seven_input :: FormValues where
  "mean_seven_input =
     \<lparr>contentType = Educational, duration = Num 1, frequency = Num 3, age = Num 24,
      parentalInvolvement = Instructive, simultaneousUse = No, backgroundFreq = Num 4,
      maternalScreenTime = Num 1, maternalMentalHealth = No\<rparr>"

definition mean_four_input :: FormValues where
  "mean_four_input =
     \<lparr>contentType = NonEducational, duration = Num 1, frequency = Num 3, age = Num 24,
      parentalInvolvement = CoViewing, simultaneousUse = No, backgroundFreq = Num 4,
      maternalScreenTime = Num 1, maternalMentalHealth = No\<rparr>"

text \<open>A form whose selects are still undefined and whose number inputs hold no text.\<close>

definition blank_form :: WatchedValues where
  "blank_form =
     \<lparr>w_contentType = None, w_duration = Some [], w_frequency = Some [], w_age = Some [],
      w_parentalInvolvement = None, w_simultaneousUse = None,
      w_backgroundFreq = Some [], w_maternalScreenTime = Some [],
      w_maternalMentalHealth = None\<rparr>"

text \<open>The same form after a zero has been typed into the background-media field.\<close>

definition background_zero_typed :: WatchedValues where
  "background_zero_typed = blank_form\<lparr>w_backgroundFreq := Some ''0''\<rparr>"

section \<open>Properties\<close>

subsection \<open>The keyed loops, field by field\<close>

lemma forEach_add_eq:
  "forEach_add delta s =
     \<lparr>vocabulary = vocabulary s + delta, mentalVerb = mentalVerb s + delta,
      expressive = expressive s + delta, verbalInteraction = verbalInteraction s + delta,
      sentenceComp = sentenceComp s + delta, socialLang = socialLang s + delta\<rparr>"
  by (simp add: forEach_add_def Object_keys_def)

lemma clamp_scores_eq:
  "clamp_scores s =
     \<lparr>vocabulary = max 0 (min 10 (vocabulary s)), mentalVerb = max 0 (min 10 (mentalVerb s)),
      expressive = max 0 (min 10 (expressive s)),
      verbalInteraction = max 0 (min 10 (verbalInteraction s)),
      sentenceComp = max 0 (min 10 (sentenceComp s)),
      socialLang = max 0 (min 10 (socialLang s))\<rparr>"
  by (simp add: clamp_scores_def Object_keys_def)

lemma avg_eq:
  "avg s = (vocabulary s + mentalVerb s + expressive s + verbalInteraction s
             + sentenceComp s + socialLang s) / 6"
  by (simp add: avg_def Object_values_def Object_keys_def)

subsection \<open>What each modifier does to each sub-score\<close>

lemma content_modifier_fields:
  "vocabulary (content_modifier c s) =
     vocabulary s + (case c of Educational \<Rightarrow> 2 | NonEducational \<Rightarrow> - 2
                      | Background \<Rightarrow> 0 | Interactive \<Rightarrow> 0)"
  "mentalVerb (content_modifier c s) =
     mentalVerb s + (case c of Educational \<Rightarrow> 2 | NonEducational \<Rightarrow> 0
                      | Background \<Rightarrow> 0 | Interactive \<Rightarrow> 1)"
  "expressive (content_modifier c s) =
     expressive s + (case c of Educational \<Rightarrow> 0 | NonEducational \<Rightarrow> - 1
                      | Background \<Rightarrow> - 2 | Interactive \<Rightarrow> 1)"
  "verbalInteraction (content_modifier c s) =
     verbalInteraction s + (case c of Educational \<Rightarrow> 0 | NonEducational \<Rightarrow> 0
                             | Background \<Rightarrow> - 3 | Interactive \<Rightarrow> 0)"
  "sentenceComp (content_modifier c s) =
     sentenceComp s + (case c of Educational \<Rightarrow> 1 | NonEducational \<Rightarrow> 0
                        | Background \<Rightarrow> 0 | Interactive \<Rightarrow> 0)"
  "socialLang (content_modifier c s) =
     socialLang s + (case c of Educational \<Rightarrow> 0 | NonEducational \<Rightarrow> - 1
                      | Background \<Rightarrow> - 2 | Interactive \<Rightarrow> 2)"
  by (cases c; simp)+

lemma parental_modifier_fields:
  "vocabulary (parental_modifier p s) =
     vocabulary s + (case p of Instructive \<Rightarrow> 2 | CoViewing \<Rightarrow> 0 | Unmediated \<Rightarrow> - 2)"
  "mentalVerb (parental_modifier p s) =
     mentalVerb s + (case p of Instructive \<Rightarrow> 2 | CoViewing \<Rightarrow> 0 | Unmediated \<Rightarrow> - 2)"
  "expressive (parental_modifier p s) =
     expressive s + (case p of Instructive \<Rightarrow> 2 | CoViewing \<Rightarrow> 1 | Unmediated \<Rightarrow> - 2)"
  "verbalInteraction (parental_modifier p s) =
     verbalInteraction s + (case p of Instructive \<Rightarrow> 2 | CoViewing \<Rightarrow> 2 | Unmediated \<Rightarrow> - 2)"
  "sentenceComp (parental_modifier p s) =
     sentenceComp s + (case p of Instructive \<Rightarrow> 2 | CoViewing \<Rightarrow> 0 | Unmediated \<Rightarrow> - 2)"
  "socialLang (parental_modifier p s) =
     socialLang s + (case p of Instructive \<Rightarrow> 2 | CoViewing \<Rightarrow> 0 | Unmediated \<Rightarrow> - 2)"
  by (cases p; simp add: forEach_add_eq)+

lemma age_modifier_fields:
  "vocabulary (age_modifier a s) =
     vocabulary s - (if js_lt a (Num 12) then 2 else if js_le a (Num 36) then 1 else 0)"
  "mentalVerb (age_modifier a s) = mentalVerb s - (if js_lt a (Num 12) then 2 else 0)"
  "expressive (age_modifier a s) = expressive s - (if js_lt a (Num 12) then 2 else 0)"
  "verbalInteraction (age_modifier a s) =
     verbalInteraction s - (if js_lt a (Num 12) then 2 else 0)"
  "sentenceComp (age_modifier a s) = sentenceComp s - (if js_lt a (Num 12) then 2 else 0)"
  "socialLang (age_modifier a s) = socialLang s - (if js_lt a (Num 12) then 2 else 0)"
  by (simp_all add: age_modifier_def forEach_add_eq)

lemma excessive_modifier_fields:
  "vocabulary (excessive_modifier dur freq s) =
     vocabulary s - (if js_gt dur (Num 2) \<or> js_gt freq (Num 7) then 1.5 else 0)"
  "mentalVerb (excessive_modifier dur freq s) =
     mentalVerb s - (if js_gt dur (Num 2) \<or> js_gt freq (Num 7) then 1.5 else 0)"
  "expressive (excessive_modifier dur freq s) =
     expressive s - (if js_gt dur (Num 2) \<or> js_gt freq (Num 7) then 1.5 else 0)"
  "verbalInteraction (excessive_modifier dur freq s) =
     verbalInteraction s - (if js_gt dur (Num 2) \<or> js_gt freq (Num 7) then 1.5 else 0)"
  "sentenceComp (excessive_modifier dur freq s) =
     sentenceComp s - (if js_gt dur (Num 2) \<or> js_gt freq (Num 7) then 1.5 else 0)"
  "socialLang (excessive_modifier dur freq s) =
     socialLang s - (if js_gt dur (Num 2) \<or> js_gt freq (Num 7) then 1.5 else 0)"
  by (simp_all add: excessive_modifier_def forEach_add_eq)

lemma simultaneous_modifier_fields:
  "vocabulary (simultaneous_modifier u s) = vocabulary s"
  "mentalVerb (simultaneous_modifier u s) = mentalVerb s"
  "expressive (simultaneous_modifier u s) = expressive s"
  "verbalInteraction (simultaneous_modifier u s) =
     verbalInteraction s - (if u = Yes then 1 else 0)"
  "sentenceComp (simultaneous_modifier u s) = sentenceComp s"
  "socialLang (simultaneous_modifier u s) = socialLang s"
  by (simp_all add: simultaneous_modifier_def)

lemma background_modifier_fields:
  "vocabulary (background_modifier b s) = vocabulary s"
  "mentalVerb (background_modifier b s) = mentalVerb s"
  "expressive (background_modifier b s) = expressive s - (if js_gt b (Num 3) then 2 else 0)"
  "verbalInteraction (background_modifier b s) =
     verbalInteraction s - (if js_gt b (Num 3) then 2 else 0)"
  "sentenceComp (background_modifier b s) = sentenceComp s"
  "socialLang (background_modifier b s) = socialLang s"
  by (simp_all add: background_modifier_def)

lemma maternal_screen_modifier_fields:
  "vocabulary (maternal_screen_modifier m s) = vocabulary s"
  "mentalVerb (maternal_screen_modifier m s) = mentalVerb s"
  "expressive (maternal_screen_modifier m s) = expressive s"
  "verbalInteraction (maternal_screen_modifier m s) = verbalInteraction s"
  "sentenceComp (maternal_screen_modifier m s) = sentenceComp s"
  "socialLang (maternal_screen_modifier m s) = socialLang s - (if js_gt m (Num 4) then 1 else 0)"
  by (simp_all add: maternal_screen_modifier_def)

lemma maternal_health_modifier_fields:
  "vocabulary (maternal_health_modifier h s) = vocabulary s"
  "mentalVerb (maternal_health_modifier h s) = mentalVerb s - (if h = Yes then 1 else 0)"
  "expressive (maternal_health_modifier h s) = expressive s"
  "verbalInteraction (maternal_health_modifier h s) = verbalInteraction s"
  "sentenceComp (maternal_health_modifier h s) = sentenceComp s"
  "socialLang (maternal_health_modifier h s) = socialLang s"
  by (simp_all add: maternal_health_modifier_def)

lemmas modifier_fields =
  content_modifier_fields parental_modifier_fields age_modifier_fields
  excessive_modifier_fields simultaneous_modifier_fields background_modifier_fields
  maternal_screen_modifier_fields maternal_health_modifier_fields


subsection \<open>Closed form of the six sub-scores before the clamp\<close>

lemma vocabulary_modified:
  "vocabulary (modified_scores d) =
     5 + (case contentType d of Educational \<Rightarrow> 2 | NonEducational \<Rightarrow> - 2
            | Background \<Rightarrow> 0 | Interactive \<Rightarrow> 0)
       + (case parentalInvolvement d of Instructive \<Rightarrow> 2 | CoViewing \<Rightarrow> 0 | Unmediated \<Rightarrow> - 2)
       - (if js_lt (age d) (Num 12) then 2 else if js_le (age d) (Num 36) then 1 else 0)
       - (if js_gt (duration d) (Num 2) \<or> js_gt (frequency d) (Num 7) then 1.5 else 0)"
  unfolding modified_scores_def modifier_fields initial_scores_def by simp

lemma mentalVerb_modified:
  "mentalVerb (modified_scores d) =
     5 + (case contentType d of Educational \<Rightarrow> 2 | NonEducational \<Rightarrow> 0
            | Background \<Rightarrow> 0 | Interactive \<Rightarrow> 1)
       + (case parentalInvolvement d of Instructive \<Rightarrow> 2 | CoViewing \<Rightarrow> 0 | Unmediated \<Rightarrow> - 2)
       - (if js_lt (age d) (Num 12) then 2 else 0)
       - (if js_gt (duration d) (Num 2) \<or> js_gt (frequency d) (Num 7) then 1.5 else 0)
       - (if maternalMentalHealth d = Yes then 1 else 0)"
  unfolding modified_scores_def modifier_fields initial_scores_def by simp

lemma expressive_modified:
  "expressive (modified_scores d) =
     5 + (case contentType d of Educational \<Rightarrow> 0 | NonEducational \<Rightarrow> - 1
            | Background \<Rightarrow> - 2 | Interactive \<Rightarrow> 1)
       + (case parentalInvolvement d of Instructive \<Rightarrow> 2 | CoViewing \<Rightarrow> 1 | Unmediated \<Rightarrow> - 2)
       - (if js_lt (age d) (Num 12) then 2 else 0)
       - (if js_gt (duration d) (Num 2) \<or> js_gt (frequency d) (Num 7) then 1.5 else 0)
       - (if js_gt (backgroundFreq d) (Num 3) then 2 else 0)"
  unfolding modified_scores_def modifier_fields initial_scores_def by simp

lemma verbalInteraction_modified:
  "verbalInteraction (modified_scores d) =
     5 + (case contentType d of Educational \<Rightarrow> 0 | NonEducational \<Rightarrow> 0
            | Background \<Rightarrow> - 3 | Interactive \<Rightarrow> 0)
       + (case parentalInvolvement d of Instructive \<Rightarrow> 2 | CoViewing \<Rightarrow> 2 | Unmediated \<Rightarrow> - 2)
       - (if js_lt (age d) (Num 12) then 2 else 0)
       - (if js_gt (duration d) (Num 2) \<or> js_gt (frequency d) (Num 7) then 1.5 else 0)
       - (if simultaneousUse d = Yes then 1 else 0)
       - (if js_gt (backgroundFreq d) (Num 3) then 2 else 0)"
  unfolding modified_scores_def modifier_fields initial_scores_def by simp

lemma sentenceComp_modified:
  "sentenceComp (modified_scores d) =
     5 + (case contentType d of Educational \<Rightarrow> 1 | NonEducational \<Rightarrow> 0
            | Background \<Rightarrow> 0 | Interactive \<Rightarrow> 0)
       + (case parentalInvolvement d of Instructive \<Rightarrow> 2 | CoViewing \<Rightarrow> 0 | Unmediated \<Rightarrow> - 2)
       - (if js_lt (age d) (Num 12) then 2 else 0)
       - (if js_gt (duration d) (Num 2) \<or> js_gt (frequency d) (Num 7) then 1.5 else 0)"
  unfolding modified_scores_def modifier_fields initial_scores_def by simp

lemma socialLang_modified:
  "socialLang (modified_scores d) =
     5 + (case contentType d of Educational \<Rightarrow> 0 | NonEducational \<Rightarrow> - 1
            | Background \<Rightarrow> - 2 | Interactive \<Rightarrow> 2)
       + (case parentalInvolvement d of Instructive \<Rightarrow> 2 | CoViewing \<Rightarrow> 0 | Unmediated \<Rightarrow> - 2)
       - (if js_lt (age d) (Num 12) then 2 else 0)
       - (if js_gt (duration d) (Num 2) \<or> js_gt (frequency d) (Num 7) then 1.5 else 0)
       - (if js_gt (maternalScreenTime d) (Num 4) then 1 else 0)"
  unfolding modified_scores_def modifier_fields initial_scores_def by simp

lemmas modified_fields =
  vocabulary_modified mentalVerb_modified expressive_modified
  verbalInteraction_modified sentenceComp_modified socialLang_modified

subsection \<open>The parts of the result\<close>

lemma scores_score_result: "scores (score_result d) = clamp_scores (modified_scores d)"
  by (simp add: score_result_def Let_def)

lemma harmLevel_score_result:
  "harmLevel (score_result d) = harm_level (avg (scores (score_result d)))"
  by (simp add: score_result_def Let_def)

lemma suggestions_score_result:
  "suggestions (score_result d) = suggestion_text (harmLevel (score_result d))"
  by (simp add: score_result_def Let_def)

lemma clamped_fields:
  "vocabulary (scores (score_result d)) = max 0 (min 10 (vocabulary (modified_scores d)))"
  "mentalVerb (scores (score_result d)) = max 0 (min 10 (mentalVerb (modified_scores d)))"
  "expressive (scores (score_result d)) = max 0 (min 10 (expressive (modified_scores d)))"
  "verbalInteraction (scores (score_result d)) =
     max 0 (min 10 (verbalInteraction (modified_scores d)))"
  "sentenceComp (scores (score_result d)) = max 0 (min 10 (sentenceComp (modified_scores d)))"
  "socialLang (scores (score_result d)) = max 0 (min 10 (socialLang (modified_scores d)))"
  by (simp_all add: scores_score_result clamp_scores_eq)

lemma clamp_mono: "x \<le> y \<Longrightarrow> max 0 (min 10 x) \<le> max (0::real) (min 10 y)"
  by (simp add: max_def min_def)

lemma clamp_le_nine: "x \<le> 9 \<Longrightarrow> max 0 (min 10 x) \<le> (9::real)"
  by (simp add: max_def min_def)

subsection \<open>The concrete inputs\<close>

lemmas eval_defs =
  modified_scores_def initial_scores_def forEach_add_eq age_modifier_def
  excessive_modifier_def simultaneous_modifier_def background_modifier_def
  maternal_screen_modifier_def maternal_health_modifier_def js_gt_def js_le_def

lemma modified_scenario_A:
  "modified_scores scenario_A =
     \<lparr>vocabulary = 6, mentalVerb = 7, expressive = 6,
      verbalInteraction = 7, sentenceComp = 6, socialLang = 5\<rparr>"
  by (simp add: scenario_A_def eval_defs)

lemma modified_scenario_B:
  "modified_scores scenario_B =
     \<lparr>vocabulary = - 0.5, mentalVerb = - 1.5, expressive = - 4.5,
      verbalInteraction = - 6.5, sentenceComp = - 0.5, socialLang = - 3.5\<rparr>"
  by (simp add: scenario_B_def eval_defs)

lemma modified_scenario_C:
  "modified_scores scenario_C =
     \<lparr>vocabulary = 7, mentalVerb = 8, expressive = 8,
      verbalInteraction = 7, sentenceComp = 7, socialLang = 9\<rparr>"
  by (simp add: scenario_C_def eval_defs)

lemma modified_mean_seven_input:
  "modified_scores mean_seven_input =
     \<lparr>vocabulary = 8, mentalVerb = 9, expressive = 5,
      verbalInteraction = 5, sentenceComp = 8, socialLang = 7\<rparr>"
  by (simp add: mean_seven_input_def eval_defs)

lemma modified_mean_four_input:
  "modified_scores mean_four_input =
     \<lparr>vocabulary = 2, mentalVerb = 5, expressive = 3,
      verbalInteraction = 5, sentenceComp = 5, socialLang = 4\<rparr>"
  by (simp add: mean_four_input_def eval_defs)

text \<open>Scenario C shows that the harm level Low is reached as well.\<close>

lemma scenario_C_result:
  "scores (score_result scenario_C) =
     \<lparr>vocabulary = 7, mentalVerb = 8, expressive = 8,
      verbalInteraction = 7, sentenceComp = 7, socialLang = 9\<rparr>
   \<and> harmLevel (score_result scenario_C) = Low"
  by (simp add: harmLevel_score_result scores_score_result modified_scenario_C
      clamp_scores_eq avg_eq harm_level_def)

subsection \<open>Range of the sub-scores\<close>

text \<open>
  C1. For every input, each of the six sub-scores of the result lies in the closed
  interval from 0 to 10.
\<close>

theorem sub_scores_in_range:
  "0 \<le> vocabulary (scores (score_result d)) \<and> vocabulary (scores (score_result d)) \<le> 10 \<and>
   0 \<le> mentalVerb (scores (score_result d)) \<and> mentalVerb (scores (score_result d)) \<le> 10 \<and>
   0 \<le> expressive (scores (score_result d)) \<and> expressive (scores (score_result d)) \<le> 10 \<and>
   0 \<le> verbalInteraction (scores (score_result d)) \<and>
     verbalInteraction (scores (score_result d)) \<le> 10 \<and>
   0 \<le> sentenceComp (scores (score_result d)) \<and> sentenceComp (scores (score_result d)) \<le> 10 \<and>
   0 \<le> socialLang (scores (score_result d)) \<and> socialLang (scores (score_result d)) \<le> 10"
  by (simp add: scores_score_result clamp_scores_eq)

text \<open>
  C9. For every input, each of the six sub-scores is at most 9, already before the clamp:
  no combination of branches adds more than 4 to the neutral 5, so the upper bound 10 of
  the clamp is never reached.
\<close>

theorem sub_scores_at_most_nine:
  "vocabulary (modified_scores d) \<le> 9 \<and> mentalVerb (modified_scores d) \<le> 9 \<and>
   expressive (modified_scores d) \<le> 9 \<and> verbalInteraction (modified_scores d) \<le> 9 \<and>
   sentenceComp (modified_scores d) \<le> 9 \<and> socialLang (modified_scores d) \<le> 9 \<and>
   vocabulary (scores (score_result d)) \<le> 9 \<and> mentalVerb (scores (score_result d)) \<le> 9 \<and>
   expressive (scores (score_result d)) \<le> 9 \<and>
   verbalInteraction (scores (score_result d)) \<le> 9 \<and>
   sentenceComp (scores (score_result d)) \<le> 9 \<and> socialLang (scores (score_result d)) \<le> 9"
proof -
  have v: "vocabulary (modified_scores d) \<le> 9"
    unfolding vocabulary_modified
    by (simp split: ContentType.split ParentalInvolvement.split)
  have m: "mentalVerb (modified_scores d) \<le> 9"
    unfolding mentalVerb_modified
    by (simp split: ContentType.split ParentalInvolvement.split)
  have e: "expressive (modified_scores d) \<le> 9"
    unfolding expressive_modified
    by (simp split: ContentType.split ParentalInvolvement.split)
  have i: "verbalInteraction (modified_scores d) \<le> 9"
    unfolding verbalInteraction_modified
    by (simp split: ContentType.split ParentalInvolvement.split)
  have c: "sentenceComp (modified_scores d) \<le> 9"
    unfolding sentenceComp_modified
    by (simp split: ContentType.split ParentalInvolvement.split)
  have l: "socialLang (modified_scores d) \<le> 9"
    unfolding socialLang_modified
    by (simp split: ContentType.split ParentalInvolvement.split)
  show ?thesis
    using v m e i c l
    by (simp add: scores_score_result clamp_scores_eq clamp_le_nine)
qed

subsection \<open>Harm level and suggestion\<close>

text \<open>
  C2. With the mean taken as the sum of the six returned (clamped) sub-scores divided by
  6, the harm level is Low exactly when the mean exceeds 7, Medium exactly when it is
  above 4 and at most 7, and High exactly when it is at most 4; a mean of exactly 7 gives
  Medium and a mean of exactly 4 gives High.
\<close>

theorem harm_level_thresholds:
  "(let s = scores (score_result d);
        mean = (vocabulary s + mentalVerb s + expressive s + verbalInteraction s
                 + sentenceComp s + socialLang s) / 6
    in (harmLevel (score_result d) = Low) = (7 < mean) \<and>
       (harmLevel (score_result d) = Medium) = (4 < mean \<and> mean \<le> 7) \<and>
       (harmLevel (score_result d) = High) = (mean \<le> 4) \<and>
       (mean = 7 \<longrightarrow> harmLevel (score_result d) = Medium) \<and>
       (mean = 4 \<longrightarrow> harmLevel (score_result d) = High))"
proof -
  have h: "harmLevel (score_result d) =
             harm_level ((vocabulary (scores (score_result d))
               + mentalVerb (scores (score_result d))
               + expressive (scores (score_result d))
               + verbalInteraction (scores (score_result d))
               + sentenceComp (scores (score_result d))
               + socialLang (scores (score_result d))) / 6)"
    by (simp only: harmLevel_score_result [of d] avg_eq)
  show ?thesis
    unfolding Let_def h harm_level_def by auto
qed

theorem harm_level_thresholds_witness:
  "(vocabulary (scores (score_result mean_seven_input))
     + mentalVerb (scores (score_result mean_seven_input))
     + expressive (scores (score_result mean_seven_input))
     + verbalInteraction (scores (score_result mean_seven_input))
     + sentenceComp (scores (score_result mean_seven_input))
     + socialLang (scores (score_result mean_seven_input))) / 6 = 7 \<and>
   harmLevel (score_result mean_seven_input) = Medium \<and>
   (vocabulary (scores (score_result mean_four_input))
     + mentalVerb (scores (score_result mean_four_input))
     + expressive (scores (score_result mean_four_input))
     + verbalInteraction (scores (score_result mean_four_input))
     + sentenceComp (scores (score_result mean_four_input))
     + socialLang (scores (score_result mean_four_input))) / 6 = 4 \<and>
   harmLevel (score_result mean_four_input) = High"
proof -
  have a7: "(vocabulary (scores (score_result mean_seven_input))
     + mentalVerb (scores (score_result mean_seven_input))
     + expressive (scores (score_result mean_seven_input))
     + verbalInteraction (scores (score_result mean_seven_input))
     + sentenceComp (scores (score_result mean_seven_input))
     + socialLang (scores (score_result mean_seven_input))) / 6 = 7"
    by (simp add: scores_score_result modified_mean_seven_input clamp_scores_eq)
  have a4: "(vocabulary (scores (score_result mean_four_input))
     + mentalVerb (scores (score_result mean_four_input))
     + expressive (scores (score_result mean_four_input))
     + verbalInteraction (scores (score_result mean_four_input))
     + sentenceComp (scores (score_result mean_four_input))
     + socialLang (scores (score_result mean_four_input))) / 6 = 4"
    by (simp add: scores_score_result modified_mean_four_input clamp_scores_eq)
  from harm_level_thresholds [of mean_seven_input, unfolded Let_def] a7
  have h7: "harmLevel (score_result mean_seven_input) = Medium" by blast
  from harm_level_thresholds [of mean_four_input, unfolded Let_def] a4
  have h4: "harmLevel (score_result mean_four_input) = High" by blast
  from a7 h7 a4 h4 show ?thesis by blast
qed

text \<open>
  C6. The suggestion of the result is determined by the harm level alone, through the
  three-entry table: High, Medium and Low each map to their fixed sentence. The Low
  sentence has an em dash (U+2014, in UTF-8 the bytes E2 80 94) between
  \<open>beneficial\<close> and \<open>continue\<close>.
\<close>

theorem suggestions_lookup:
  "suggestions (score_result d) =
     (case harmLevel (score_result d) of
        High \<Rightarrow> ''Reduce screen time, focus on mediated educational content, and increase direct interactions.''
      | Medium \<Rightarrow> ''Monitor usage; add more parental involvement for better outcomes.''
      | Low \<Rightarrow> ''Current setup seems beneficial'' @ [CHR 0xE2, CHR 0x80, CHR 0x94]
                @ ''continue with educational focus.'')"
  unfolding suggestions_score_result [of d] suggestion_text_def em_dash_def
  by (cases "harmLevel (score_result d)") simp_all

subsection \<open>Scenarios\<close>

text \<open>
  C3. On scenario A (educational, 1 h/day, 3 sessions/week, 24 months, co-viewing, no
  simultaneous use, background 0, maternal screen time 1, no maternal symptoms) the
  handler produces vocabulary 6, mentalVerb 7, expressive 6, verbalInteraction 7,
  sentenceComp 6, socialLang 5 and harm level Medium.
\<close>

theorem scenario_A_result:
  "scores (score_result scenario_A) =
     \<lparr>vocabulary = 6, mentalVerb = 7, expressive = 6,
      verbalInteraction = 7, sentenceComp = 6, socialLang = 5\<rparr>
   \<and> harmLevel (score_result scenario_A) = Medium"
  by (simp add: harmLevel_score_result scores_score_result modified_scenario_A
      clamp_scores_eq avg_eq harm_level_def)

text \<open>
  C4. On scenario B (background, 4 h/day, 10 sessions/week, 8 months, unmediated,
  simultaneous use, background 5, maternal screen time 6, maternal symptoms) all six
  sub-scores are 0 and the harm level is High.
\<close>

theorem scenario_B_result:
  "scores (score_result scenario_B) =
     \<lparr>vocabulary = 0, mentalVerb = 0, expressive = 0,
      verbalInteraction = 0, sentenceComp = 0, socialLang = 0\<rparr>
   \<and> harmLevel (score_result scenario_B) = High"
  by (simp add: harmLevel_score_result scores_score_result modified_scenario_B
      clamp_scores_eq avg_eq harm_level_def)

subsection \<open>Dependence on single fields\<close>

text \<open>
  C5. Of two inputs that agree on every field except the content type, one with
  background and the other with educational content, the educational one has a
  vocabulary, a mentalVerb and a sentenceComp sub-score at least as large as the
  background one.
\<close>

theorem educational_not_below_background:
  assumes "contentType b = Background" and "e = b\<lparr>contentType := Educational\<rparr>"
  shows "vocabulary (scores (score_result b)) \<le> vocabulary (scores (score_result e)) \<and>
         mentalVerb (scores (score_result b)) \<le> mentalVerb (scores (score_result e)) \<and>
         sentenceComp (scores (score_result b)) \<le> sentenceComp (scores (score_result e))"
proof -
  have f: "contentType e = Educational" "parentalInvolvement e = parentalInvolvement b"
    "age e = age b" "duration e = duration b" "frequency e = frequency b"
    "maternalMentalHealth e = maternalMentalHealth b"
    using assms(2) by simp_all
  have v: "vocabulary (modified_scores e) = vocabulary (modified_scores b) + 2"
    unfolding vocabulary_modified f assms(1) by simp
  have m: "mentalVerb (modified_scores e) = mentalVerb (modified_scores b) + 2"
    unfolding mentalVerb_modified f assms(1) by simp
  have c: "sentenceComp (modified_scores e) = sentenceComp (modified_scores b) + 1"
    unfolding sentenceComp_modified f assms(1) by simp
  show ?thesis
    unfolding clamped_fields by (intro conjI clamp_mono) (simp_all add: v m c)
qed

theorem educational_not_below_background_witness:
  "contentType scenario_B = Background \<and>
   vocabulary (scores (score_result scenario_B))
     \<le> vocabulary (scores (score_result (scenario_B\<lparr>contentType := Educational\<rparr>))) \<and>
   mentalVerb (scores (score_result scenario_B))
     \<le> mentalVerb (scores (score_result (scenario_B\<lparr>contentType := Educational\<rparr>))) \<and>
   sentenceComp (scores (score_result scenario_B))
     \<le> sentenceComp (scores (score_result (scenario_B\<lparr>contentType := Educational\<rparr>)))"
proof -
  have bg: "contentType scenario_B = Background"
    by (simp add: scenario_B_def)
  from educational_not_below_background [OF bg refl] bg show ?thesis by blast
qed

text \<open>
  C10. Two inputs that agree on every field except the simultaneous-use flag have the
  same vocabulary, mentalVerb, expressive, sentenceComp and socialLang sub-scores; only
  verbalInteraction can differ.
\<close>

theorem simultaneousUse_frame:
  assumes "d2 = d1\<lparr>simultaneousUse := u\<rparr>"
  shows "vocabulary (scores (score_result d2)) = vocabulary (scores (score_result d1)) \<and>
         mentalVerb (scores (score_result d2)) = mentalVerb (scores (score_result d1)) \<and>
         expressive (scores (score_result d2)) = expressive (scores (score_result d1)) \<and>
         sentenceComp (scores (score_result d2)) = sentenceComp (scores (score_result d1)) \<and>
         socialLang (scores (score_result d2)) = socialLang (scores (score_result d1))"
proof -
  have f: "contentType d2 = contentType d1" "parentalInvolvement d2 = parentalInvolvement d1"
    "age d2 = age d1" "duration d2 = duration d1" "frequency d2 = frequency d1"
    "backgroundFreq d2 = backgroundFreq d1" "maternalScreenTime d2 = maternalScreenTime d1"
    "maternalMentalHealth d2 = maternalMentalHealth d1"
    using assms by simp_all
  have v: "vocabulary (modified_scores d2) = vocabulary (modified_scores d1)"
    unfolding vocabulary_modified f by (rule refl)
  have m: "mentalVerb (modified_scores d2) = mentalVerb (modified_scores d1)"
    unfolding mentalVerb_modified f by (rule refl)
  have e: "expressive (modified_scores d2) = expressive (modified_scores d1)"
    unfolding expressive_modified f by (rule refl)
  have c: "sentenceComp (modified_scores d2) = sentenceComp (modified_scores d1)"
    unfolding sentenceComp_modified f by (rule refl)
  have l: "socialLang (modified_scores d2) = socialLang (modified_scores d1)"
    unfolding socialLang_modified f by (rule refl)
  show ?thesis
    by (simp add: scores_score_result clamp_scores_eq v m e c l)
qed

theorem simultaneousUse_frame_witness:
  "vocabulary (scores (score_result (scenario_A\<lparr>simultaneousUse := Yes\<rparr>)))
     = vocabulary (scores (score_result scenario_A)) \<and>
   mentalVerb (scores (score_result (scenario_A\<lparr>simultaneousUse := Yes\<rparr>)))
     = mentalVerb (scores (score_result scenario_A)) \<and>
   expressive (scores (score_result (scenario_A\<lparr>simultaneousUse := Yes\<rparr>)))
     = expressive (scores (score_result scenario_A)) \<and>
   sentenceComp (scores (score_result (scenario_A\<lparr>simultaneousUse := Yes\<rparr>)))
     = sentenceComp (scores (score_result scenario_A)) \<and>
   socialLang (scores (score_result (scenario_A\<lparr>simultaneousUse := Yes\<rparr>)))
     = socialLang (scores (score_result scenario_A)) \<and>
   verbalInteraction (scores (score_result (scenario_A\<lparr>simultaneousUse := Yes\<rparr>))) = 6 \<and>
   verbalInteraction (scores (score_result scenario_A)) = 7"
proof -
  have y: "verbalInteraction (modified_scores (scenario_A\<lparr>simultaneousUse := Yes\<rparr>)) = 6"
    by (simp add: verbalInteraction_modified scenario_A_def js_gt_def)
  have n: "verbalInteraction (scores (score_result scenario_A)) = 7"
    by (simp add: scores_score_result clamp_scores_eq modified_scenario_A)
  have y': "verbalInteraction (scores (score_result (scenario_A\<lparr>simultaneousUse := Yes\<rparr>))) = 6"
    by (simp add: scores_score_result clamp_scores_eq y)
  from simultaneousUse_frame [where ?d1.0 = scenario_A and u = Yes, OF refl] y' n
  show ?thesis by blast
qed

subsection \<open>The handler as a state transformer\<close>

text \<open>The handler stores the result computed from its input.\<close>

lemma onSubmit_results: "results (onSubmit d st) = Some (score_result d)"
  by (simp add: onSubmit_def setResults_def)

subsection \<open>The emptiness flag\<close>

lemma truthy_text_iff: "truthy_text v = (v \<noteq> None \<and> v \<noteq> Some [])"
  by (cases v) simp_all

lemma truthy_option_iff: "truthy_option v = (v \<noteq> None)"
  by (cases v) simp_all

text \<open>
  C8. For every state of the nine watched fields, the flag reports the form as empty, and
  the submit button is disabled, exactly when no field has a value: every select is
  still undefined and every number input is undefined or holds the empty text.
  Equivalently, submission is enabled as soon as one select holds an option or one
  number input holds a non-empty text.
\<close>

theorem isFormEmpty_iff_no_value:
  "isFormEmpty fv =
     (w_contentType fv = None \<and>
      (w_duration fv = None \<or> w_duration fv = Some []) \<and>
      (w_frequency fv = None \<or> w_frequency fv = Some []) \<and>
      (w_age fv = None \<or> w_age fv = Some []) \<and>
      w_parentalInvolvement fv = None \<and>
      w_simultaneousUse fv = None \<and>
      (w_backgroundFreq fv = None \<or> w_backgroundFreq fv = Some []) \<and>
      (w_maternalScreenTime fv = None \<or> w_maternalScreenTime fv = Some []) \<and>
      w_maternalMentalHealth fv = None) \<and>
   submit_disabled fv = isFormEmpty fv \<and>
   (\<not> submit_disabled fv) =
     (w_contentType fv \<noteq> None \<or>
      (w_duration fv \<noteq> None \<and> w_duration fv \<noteq> Some []) \<or>
      (w_frequency fv \<noteq> None \<and> w_frequency fv \<noteq> Some []) \<or>
      (w_age fv \<noteq> None \<and> w_age fv \<noteq> Some []) \<or>
      w_parentalInvolvement fv \<noteq> None \<or>
      w_simultaneousUse fv \<noteq> None \<or>
      (w_backgroundFreq fv \<noteq> None \<and> w_backgroundFreq fv \<noteq> Some []) \<or>
      (w_maternalScreenTime fv \<noteq> None \<and> w_maternalScreenTime fv \<noteq> Some []) \<or>
      w_maternalMentalHealth fv \<noteq> None)"
proof (intro conjI)
  show "isFormEmpty fv =
     (w_contentType fv = None \<and>
      (w_duration fv = None \<or> w_duration fv = Some []) \<and>
      (w_frequency fv = None \<or> w_frequency fv = Some []) \<and>
      (w_age fv = None \<or> w_age fv = Some []) \<and>
      w_parentalInvolvement fv = None \<and>
      w_simultaneousUse fv = None \<and>
      (w_backgroundFreq fv = None \<or> w_backgroundFreq fv = Some []) \<and>
      (w_maternalScreenTime fv = None \<or> w_maternalScreenTime fv = Some []) \<and>
      w_maternalMentalHealth fv = None)"
    by (simp add: isFormEmpty_def truthy_text_iff truthy_option_iff)
  show "submit_disabled fv = isFormEmpty fv"
    by (simp add: submit_disabled_def)
  show "(\<not> submit_disabled fv) =
     (w_contentType fv \<noteq> None \<or>
      (w_duration fv \<noteq> None \<and> w_duration fv \<noteq> Some []) \<or>
      (w_frequency fv \<noteq> None \<and> w_frequency fv \<noteq> Some []) \<or>
      (w_age fv \<noteq> None \<and> w_age fv \<noteq> Some []) \<or>
      w_parentalInvolvement fv \<noteq> None \<or>
      w_simultaneousUse fv \<noteq> None \<or>
      (w_backgroundFreq fv \<noteq> None \<and> w_backgroundFreq fv \<noteq> Some []) \<or>
      (w_maternalScreenTime fv \<noteq> None \<and> w_maternalScreenTime fv \<noteq> Some []) \<or>
      w_maternalMentalHealth fv \<noteq> None)"
    by (simp add: submit_disabled_def isFormEmpty_def truthy_text_iff truthy_option_iff)
qed

theorem isFormEmpty_iff_no_value_witness:
  "isFormEmpty blank_form \<and> submit_disabled blank_form \<and>
   \<not> isFormEmpty background_zero_typed \<and> \<not> submit_disabled background_zero_typed"
proof -
  have u: "w_contentType blank_form = None"
    "w_duration blank_form = Some []" "w_frequency blank_form = Some []"
    "w_age blank_form = Some []" "w_parentalInvolvement blank_form = None"
    "w_simultaneousUse blank_form = None" "w_backgroundFreq blank_form = Some []"
    "w_maternalScreenTime blank_form = Some []"
    "w_maternalMentalHealth blank_form = None"
    by (simp_all add: blank_form_def)
  have z: "w_backgroundFreq background_zero_typed \<noteq> None"
    "w_backgroundFreq background_zero_typed \<noteq> Some []"
    by (simp_all add: background_zero_typed_def)
  from isFormEmpty_iff_no_value [of blank_form] u
  have e: "isFormEmpty blank_form \<and> submit_disabled blank_form" by simp
  from isFormEmpty_iff_no_value [of background_zero_typed] z
  have n: "\<not> isFormEmpty background_zero_typed \<and> \<not> submit_disabled background_zero_typed"
    by blast
  from e n show ?thesis by blast
qed

end
